theory Spec2Isabelle
  imports Complex_Main "HOL-Library.Log_Nat"
begin

section \<open>JavaScript numbers\<close>

text \<open>
  The engine compares trust ratings with the literals \<open>0.6\<close> and \<open>0.8\<close> and computes the
  health score with \<open>*\<close>, \<open>-\<close>, \<open>/\<close>, \<open>Math.max\<close> and \<open>Math.round\<close>, all on IEEE 754
  binary64 values. A \<open>number\<close> is NaN, an infinity, or a finite value given by the rational
  it denotes. The two zeros are identified: the scan never divides by a computed value and
  \<open>Math.max(0.0, x)\<close> returns \<open>+0\<close> for both zeros, so the sign of a zero is never observed.
\<close>

datatype number = NaN | PosInfinity | NegInfinity | Finite rat

definition pow2 :: "int \<Rightarrow> rat" where
  "pow2 k = (if 0 \<le> k then 2 ^ nat k else 1 / 2 ^ nat (- k))"

text \<open>\<open>ilog2 q\<close> is the binary exponent of a positive rational: \<open>2^e \<le> q < 2^(e+1)\<close>.\<close>

definition ilog2 :: "rat \<Rightarrow> int" where
  "ilog2 q = (case quotient_of q of (a, b) \<Rightarrow>
     (let d = bitlen a - bitlen b in if pow2 d \<le> q then d else d - 1))"

definition round_half_even :: "rat \<Rightarrow> int" where
  "round_half_even x =
     (let f = \<lfloor>x\<rfloor>; d = x - of_int f in
      if d < 1 / 2 then f else if 1 / 2 < d then f + 1 else if even f then f else f + 1)"

text \<open>
  Rounding of a positive exact result to binary64, ties to even: 53 significant bits,
  exponents from \<open>-1022\<close> (below that the spacing stays \<open>2^-1074\<close>, the subnormals), and
  overflow to infinity from \<open>2^1024\<close> on.
\<close>

definition round_pos :: "rat \<Rightarrow> number" where
  "round_pos q =
     (let e = max (ilog2 q) (- 1022);
          ulp = pow2 (e - 52);
          r = of_int (round_half_even (q / ulp)) * ulp
      in if pow2 1024 \<le> r then PosInfinity else Finite r)"

definition num_neg :: "number \<Rightarrow> number" where
  "num_neg x = (case x of NaN \<Rightarrow> NaN | PosInfinity \<Rightarrow> NegInfinity
                | NegInfinity \<Rightarrow> PosInfinity | Finite q \<Rightarrow> Finite (- q))"

text \<open>The number nearest to an exact value: a decimal literal, or the result of an operation.\<close>

definition to_number :: "rat \<Rightarrow> number" where
  "to_number q = (if q = 0 then Finite 0 else if 0 < q then round_pos q
                  else num_neg (round_pos (- q)))"

text \<open>An array length or a counter as a number.\<close>

definition num_of_nat :: "nat \<Rightarrow> number" where
  "num_of_nat n = to_number (of_nat n)"

text \<open>The comparison \<open>x < y\<close>: false as soon as one side is NaN.\<close>

fun num_lt :: "number \<Rightarrow> number \<Rightarrow> bool" where
  "num_lt (Finite a) (Finite b) = (a < b)"
| "num_lt (Finite a) PosInfinity = True"
| "num_lt NegInfinity (Finite b) = True"
| "num_lt NegInfinity PosInfinity = True"
| "num_lt _ _ = False"

fun num_mul :: "number \<Rightarrow> number \<Rightarrow> number" where
  "num_mul (Finite a) (Finite b) = to_number (a * b)"
| "num_mul NaN _ = NaN"
| "num_mul _ NaN = NaN"
| "num_mul (Finite a) y = (if a = 0 then NaN else if 0 < a then y else num_neg y)"
| "num_mul x (Finite b) = (if b = 0 then NaN else if 0 < b then x else num_neg x)"
| "num_mul x y = (if x = y then PosInfinity else NegInfinity)"

fun num_sub :: "number \<Rightarrow> number \<Rightarrow> number" where
  "num_sub (Finite a) (Finite b) = to_number (a - b)"
| "num_sub NaN _ = NaN"
| "num_sub _ NaN = NaN"
| "num_sub (Finite a) y = num_neg y"
| "num_sub x (Finite b) = x"
| "num_sub x y = (if x = y then NaN else x)"

text \<open>Division; a zero divisor is taken as \<open>+0\<close>.\<close>

fun num_div :: "number \<Rightarrow> number \<Rightarrow> number" where
  "num_div (Finite a) (Finite b) =
     (if b = 0 then (if a = 0 then NaN else if 0 < a then PosInfinity else NegInfinity)
      else to_number (a / b))"
| "num_div NaN _ = NaN"
| "num_div _ NaN = NaN"
| "num_div (Finite a) y = Finite 0"
| "num_div x (Finite b) = (if 0 \<le> b then x else num_neg x)"
| "num_div x y = NaN"

text \<open>\<open>Math.max\<close> of two arguments.\<close>

definition Math_max :: "number \<Rightarrow> number \<Rightarrow> number" where
  "Math_max x y = (if x = NaN \<or> y = NaN then NaN else if num_lt x y then y else x)"

text \<open>\<open>Math.round\<close>: the nearest integer, a tie going towards \<open>+\<infinity>\<close>.\<close>

definition Math_round :: "number \<Rightarrow> number" where
  "Math_round x = (case x of Finite q \<Rightarrow> Finite (of_int \<lfloor>q + 1 / 2\<rfloor>) | _ \<Rightarrow> x)"

section \<open>Data model of the Sentinel engine\<close>

record Position =
  latitude :: number
  longitude :: number

record Location = Position +
  zoneId :: "string option"

datatype StatusCode = ERROR | TASK_COMMENCED | COMPLETED | IDLE

text \<open>A value of type \<open>any\<close> stored in a payload.\<close>

datatype any_value = AnyNumber number | AnyString string | AnyBool bool | AnyNull

text \<open>
  \<open>dataPayload\<close> is an object with string keys, listed as its entries; \<open>None\<close> is an absent
  (\<open>null\<close> or \<open>undefined\<close>) payload, which the engine tests for although the declared type
  excludes it.
\<close>

record AssetEvent =
  assetUuid :: string
  originKey :: string
  location :: Location
  timestamp :: number
  statusCode :: StatusCode
  dataPayload :: "(string \<times> any_value) list option"

datatype Role = AGENT | PILOT | COMMAND

record OperatorStatus =
  operatorId :: string
  trustRating :: number
  currentTaskId :: "string option"
  lastKnownLocation :: Position
  role :: Role

datatype ViolationType = TRUST_VIOLATION | DATA_INTEGRITY | PROTOCOL_BREACH

datatype Severity = CRITICAL | WARNING | NOTICE

record Violation =
  id_v :: string
  type_v :: ViolationType
  description :: string
  severity :: Severity
  protocolRef :: string

record IntegrityReport =
  timestamp_r :: number
  systemHealthScore :: number
  criticalAssetCount :: nat
  violations :: "Violation list"
  scanDurationMs :: number

section \<open>The scan\<close>

text \<open>
  The memory the scan works on: the two argument arrays and the two locals
  \<open>violations\<close> and \<open>criticalAssetCount\<close>. The counter holds an integer below \<open>2^32\<close>
  (the bound on the length of an array), where \<open>++\<close> is exact.
\<close>

record scan_state =
  st_allEvents :: "AssetEvent list"
  st_allStatuses :: "OperatorStatus list"
  st_violations :: "Violation list"
  st_criticalAssetCount :: nat

text \<open>
  \<open>Array.prototype.forEach\<close>: the length is read once, then every index below it that the
  array still has is visited in ascending order, the element being read at the time of
  the visit.
\<close>

definition forEach :: "(scan_state \<Rightarrow> 'a list) \<Rightarrow> ('a \<Rightarrow> scan_state \<Rightarrow> scan_state)
    \<Rightarrow> scan_state \<Rightarrow> scan_state" where
  "forEach arr callback s =
     fold (\<lambda>k st. if k < length (arr st) then callback (arr st ! k) st else st)
       [0..<length (arr s)] s"

definition Object_keys :: "(string \<times> 'v) list \<Rightarrow> string list" where
  "Object_keys obj = remdups (map fst obj)"

text \<open>The test \<open>!event.dataPayload || Object.keys(event.dataPayload).length === 0\<close>.\<close>

definition payload_missing :: "(string \<times> any_value) list option \<Rightarrow> bool" where
  "payload_missing p = (case p of None \<Rightarrow> True | Some obj \<Rightarrow> length (Object_keys obj) = 0)"

definition push :: "Violation \<Rightarrow> scan_state \<Rightarrow> scan_state" where
  "push v s = s\<lparr>st_violations := st_violations s @ [v]\<rparr>"

text \<open>Pass A, the callback on asset events (CCP-3.1).\<close>

definition eventCallback :: "AssetEvent \<Rightarrow> scan_state \<Rightarrow> scan_state" where
  "eventCallback event s =
     (if statusCode event = ERROR then
        (let s1 = s\<lparr>st_criticalAssetCount := st_criticalAssetCount s + 1\<rparr> in
         if payload_missing (dataPayload event) then
           push \<lparr>id_v = assetUuid event,
                 type_v = DATA_INTEGRITY,
                 description = ''Asset reported ERROR status without required audit payload.'',
                 severity = CRITICAL,
                 protocolRef = ''CCP-3.1''\<rparr> s1
         else s1)
      else s)"

text \<open>
  Pass B, the callback on operator statuses (CCP-4.1, then CCP-4.2). \<open>toFixed2\<close> stands for
  the built-in \<open>Number.prototype.toFixed\<close> at two digits, which only the description of a
  trust violation uses; every result below holds for any such function.
\<close>

definition statusCallback :: "(number \<Rightarrow> string) \<Rightarrow> OperatorStatus \<Rightarrow> scan_state \<Rightarrow> scan_state" where
  "statusCallback toFixed2 status s =
     (if num_lt (trustRating status) (to_number (6 / 10)) \<and> currentTaskId status \<noteq> None then
        push \<lparr>id_v = operatorId status,
              type_v = TRUST_VIOLATION,
              description = ''Sub-baseline Operator ('' @ toFixed2 (trustRating status)
                              @ '') actively assigned to task.'',
              severity = CRITICAL,
              protocolRef = ''CCP-4.1''\<rparr> s
      else if num_lt (trustRating status) (to_number (8 / 10)) \<and> currentTaskId status = None then
        push \<lparr>id_v = operatorId status,
              type_v = PROTOCOL_BREACH,
              description = ''Operator trust unstable; requires immediate Skill Verification pathway.'',
              severity = WARNING,
              protocolRef = ''CCP-4.2''\<rparr> s
      else s)"

text \<open>The memory at entry: the arguments, an empty \<open>violations\<close> array, the counter at 0.\<close>

definition init_state :: "AssetEvent list \<Rightarrow> OperatorStatus list \<Rightarrow> scan_state" where
  "init_state allEvents allStatuses =
     \<lparr>st_allEvents = allEvents, st_allStatuses = allStatuses,
      st_violations = [], st_criticalAssetCount = 0\<rparr>"

text \<open>The two passes, from the memory at entry to the memory after pass B.\<close>

definition scan_passes :: "(number \<Rightarrow> string) \<Rightarrow> AssetEvent list \<Rightarrow> OperatorStatus list
    \<Rightarrow> scan_state" where
  "scan_passes toFixed2 allEvents allStatuses =
     forEach st_allStatuses (statusCallback toFixed2)
       (forEach st_allEvents eventCallback (init_state allEvents allStatuses))"

text \<open>Step C: \<open>1.0\<close> minus \<open>0.1\<close> for each critical violation, not below \<open>0.0\<close>, rounded.\<close>

definition healthScore :: "Violation list \<Rightarrow> number" where
  "healthScore vs =
     (let penalty = num_mul (num_of_nat (length (filter (\<lambda>v. severity v = CRITICAL) vs)))
                      (to_number (1 / 10));
          systemHealthScore = Math_max (to_number 0) (num_sub (to_number 1) penalty)
      in num_div (Math_round (num_mul systemHealthScore (to_number 100))) (to_number 100))"

text \<open>
  \<open>runIntegrityScan\<close>. \<open>Date_now k\<close> is the reading of the \<open>k\<close>-th call of \<open>Date.now()\<close>
  (at entry, after the scoring, in the report). The function is \<open>async\<close> and has no
  \<open>await\<close> and no \<open>throw\<close>: its promise is fulfilled with the report.
\<close>

definition runIntegrityScan :: "(number \<Rightarrow> string) \<Rightarrow> (nat \<Rightarrow> number) \<Rightarrow> AssetEvent list
    \<Rightarrow> OperatorStatus list \<Rightarrow> IntegrityReport" where
  "runIntegrityScan toFixed2 Date_now allEvents allStatuses =
     (let startTime = Date_now 0;
          s = scan_passes toFixed2 allEvents allStatuses;
          score = healthScore (st_violations s);
          scanDurationMs = num_sub (Date_now 1) startTime
      in \<lparr>timestamp_r = Date_now 2,
          systemHealthScore = score,
          criticalAssetCount = st_criticalAssetCount s,
          violations = st_violations s,
          scanDurationMs = scanDurationMs\<rparr>)"

subsection \<open>The mock fixtures\<close>

text \<open>The timestamps of the fixtures are readings of the clock at load time.\<close>

definition MOCK_ASSET_EVENTS :: "number \<Rightarrow> number \<Rightarrow> AssetEvent list" where
  "MOCK_ASSET_EVENTS t1 t2 =
     [\<lparr>assetUuid = ''ASSET-101'', originKey = ''SCAN-A'',
       location = \<lparr>latitude = to_number 34, longitude = to_number (- 118), zoneId = Some ''Z1''\<rparr>,
       timestamp = t1, statusCode = TASK_COMMENCED,
       dataPayload = Some [(''taskStep'', AnyNumber (to_number 2))]\<rparr>,
      \<lparr>assetUuid = ''ASSET-202'', originKey = ''SCAN-B'',
       location = \<lparr>latitude = to_number (341 / 10), longitude = to_number (- 1181 / 10),
                   zoneId = Some ''Z2''\<rparr>,
       timestamp = t2, statusCode = ERROR,
       dataPayload = Some []\<rparr>]"

definition MOCK_OPERATOR_STATUSES :: "OperatorStatus list" where
  "MOCK_OPERATOR_STATUSES =
     [\<lparr>operatorId = ''OP-JANE'', trustRating = to_number (95 / 100), currentTaskId = Some ''T-456'',
       lastKnownLocation = \<lparr>latitude = to_number (3405 / 100), longitude = to_number (- 11805 / 100)\<rparr>,
       role = PILOT\<rparr>,
      \<lparr>operatorId = ''OP-JOE'', trustRating = to_number (58 / 100), currentTaskId = Some ''T-789'',
       lastKnownLocation = \<lparr>latitude = to_number (3415 / 100), longitude = to_number (- 11815 / 100)\<rparr>,
       role = AGENT\<rparr>,
      \<lparr>operatorId = ''OP-KORE'', trustRating = to_number (72 / 100), currentTaskId = None,
       lastKnownLocation = \<lparr>latitude = to_number (3420 / 100), longitude = to_number (- 11820 / 100)\<rparr>,
       role = AGENT\<rparr>]"

section \<open>The dashboard page\<close>

text \<open>
  The outcome of an awaited promise: fulfilled with a value, or rejected with the error
  that was thrown.
\<close>

datatype 'a settled = Fulfilled 'a | Rejected string

text \<open>What the page imports as \<open>runIntegrityScan\<close>: the promise of the scan, always fulfilled.\<close>

definition runIntegrityScan_promise :: "(number \<Rightarrow> string) \<Rightarrow> (nat \<Rightarrow> number) \<Rightarrow> AssetEvent list
    \<Rightarrow> OperatorStatus list \<Rightarrow> IntegrityReport settled" where
  "runIntegrityScan_promise toFixed2 Date_now allEvents allStatuses =
     Fulfilled (runIntegrityScan toFixed2 Date_now allEvents allStatuses)"

text \<open>
  The state of the component \<open>Sentinel\<close>: its two \<open>useState\<close> cells, and the lines written
  with \<open>console.error\<close> (a label and the error).
\<close>

record page_state =
  report :: "IntegrityReport option"
  isScanning :: bool
  console_error :: "(string \<times> string) list"

text \<open>\<open>executeScan\<close> up to its \<open>await\<close>: \<open>setIsScanning(true)\<close>, then the engine is called.\<close>

definition executeScan_enter :: "page_state \<Rightarrow> page_state" where
  "executeScan_enter st = st\<lparr>isScanning := True\<rparr>"

text \<open>\<open>executeScan\<close> from the settled promise on: the \<open>try\<close> or the \<open>catch\<close>, then the \<open>finally\<close>.\<close>

definition executeScan_resume :: "IntegrityReport settled \<Rightarrow> page_state \<Rightarrow> page_state" where
  "executeScan_resume outcome st =
     (let st1 = (case outcome of
                   Fulfilled scanReport \<Rightarrow> st\<lparr>report := Some scanReport\<rparr>
                 | Rejected error \<Rightarrow>
                     st\<lparr>console_error := console_error st @ [(''Scan failed:'', error)]\<rparr>)
      in st1\<lparr>isScanning := False\<rparr>)"

text \<open>
  \<open>executeScan\<close>, for any engine in the place of the imported one; \<open>t1\<close> and \<open>t2\<close> are the
  load-time timestamps of the fixtures.
\<close>

definition executeScan :: "(AssetEvent list \<Rightarrow> OperatorStatus list \<Rightarrow> IntegrityReport settled)
    \<Rightarrow> number \<Rightarrow> number \<Rightarrow> page_state \<Rightarrow> page_state" where
  "executeScan engine t1 t2 st =
     executeScan_resume (engine (MOCK_ASSET_EVENTS t1 t2) MOCK_OPERATOR_STATUSES)
       (executeScan_enter st)"

section \<open>Facts about numbers\<close>

subsection \<open>Powers of two and the binary exponent\<close>

lemma pow2_powi: "pow2 k = 2 powi k"
  by (simp add: pow2_def power_int_def inverse_eq_divide power_one_over)

lemma pow2_pos [simp]: "0 < pow2 k"
  by (simp add: pow2_def)

lemma pow2_add: "pow2 (i + j) = pow2 i * pow2 j"
  by (simp add: pow2_powi power_int_add)

lemma pow2_mono: "i \<le> j \<Longrightarrow> pow2 i \<le> pow2 j"
  by (simp add: pow2_powi power_int_increasing)

lemma pow2_less_cancel: "pow2 i < pow2 j \<Longrightarrow> i < j"
  using pow2_mono [of j i] by (cases "i < j") auto

lemma ilog2_bounds:
  assumes "0 < q"
  shows "pow2 (ilog2 q) \<le> q \<and> q < pow2 (ilog2 q + 1)"
proof -
  obtain a b where ab: "quotient_of q = (a, b)" by (cases "quotient_of q")
  have b: "0 < b" using ab by (rule quotient_of_denom_pos)
  have q: "q = of_int a / of_int b" using ab by (rule quotient_of_div)
  have a: "0 < a" using assms b q by (simp add: zero_less_divide_iff)
  define la lb where "la = bitlen a" and "lb = bitlen b"
  have la: "2 ^ nat (la - 1) \<le> a" "a < 2 ^ nat la"
    using bitlen_bounds [OF a] by (simp_all add: la_def)
  have lb: "2 ^ nat (lb - 1) \<le> b" "b < 2 ^ nat lb"
    using bitlen_bounds [OF b] by (simp_all add: lb_def)
  have la1: "1 \<le> la" using a bitlen_eq_zero_iff [of a] bitlen_nonneg [of a] by (auto simp: la_def)
  have lb1: "1 \<le> lb" using b bitlen_eq_zero_iff [of b] bitlen_nonneg [of b] by (auto simp: lb_def)
  have ra: "pow2 (la - 1) \<le> of_int a" "of_int a < pow2 la"
  proof -
    have "(of_int (2 ^ nat (la - 1)) :: rat) \<le> of_int a" using la(1) by (simp only: of_int_le_iff)
    then show "pow2 (la - 1) \<le> of_int a" using la1 by (simp add: pow2_def)
    have "(of_int a :: rat) < of_int (2 ^ nat la)" using la(2) by (simp only: of_int_less_iff)
    then show "of_int a < pow2 la" using la1 by (simp add: pow2_def)
  qed
  have rb: "pow2 (lb - 1) \<le> of_int b" "of_int b < pow2 lb"
  proof -
    have "(of_int (2 ^ nat (lb - 1)) :: rat) \<le> of_int b" using lb(1) by (simp only: of_int_le_iff)
    then show "pow2 (lb - 1) \<le> of_int b" using lb1 by (simp add: pow2_def)
    have "(of_int b :: rat) < of_int (2 ^ nat lb)" using lb(2) by (simp only: of_int_less_iff)
    then show "of_int b < pow2 lb" using lb1 by (simp add: pow2_def)
  qed
  have bpos: "(0::rat) < of_int b" using b by simp
  have up: "q < pow2 (la - lb + 1)"
  proof -
    have "of_int a < pow2 (la - lb + 1) * pow2 (lb - 1)"
      using ra(2) by (simp flip: pow2_add)
    also have "\<dots> \<le> pow2 (la - lb + 1) * of_int b"
      using rb(1) by (simp add: mult_left_mono less_imp_le)
    finally show ?thesis using bpos by (simp add: q pos_divide_less_eq)
  qed
  have lo: "pow2 (la - lb - 1) \<le> q"
  proof -
    have "pow2 (la - lb - 1) * of_int b \<le> pow2 (la - lb - 1) * pow2 lb"
      using rb(2) by (simp add: mult_left_mono less_imp_le)
    also have "\<dots> = pow2 (la - 1)" by (simp flip: pow2_add)
    also have "\<dots> \<le> of_int a" by (rule ra(1))
    finally show ?thesis using bpos by (simp add: q pos_le_divide_eq)
  qed
  show ?thesis
    using up lo by (simp add: ilog2_def ab Let_def flip: la_def lb_def) 
qed


lemma round_half_even_ge_floor: "\<lfloor>x\<rfloor> \<le> round_half_even x"
  by (simp add: round_half_even_def Let_def)

lemma round_half_even_of_int [simp]: "round_half_even (of_int z) = z"
  by (simp add: round_half_even_def Let_def)

lemma round_pos_lower:
  assumes q: "pow2 k \<le> q" and k: "- 1022 \<le> k"
  shows "round_pos q = PosInfinity \<or> (\<exists>r. round_pos q = Finite r \<and> pow2 k \<le> r)"
proof -
  have qpos: "0 < q" using q pow2_pos [of k] by linarith
  define e where "e = ilog2 q"
  have b: "pow2 e \<le> q" "q < pow2 (e + 1)"
    using ilog2_bounds [OF qpos] by (simp_all add: e_def)
  have "pow2 k < pow2 (e + 1)" using q b(2) by linarith
  then have ke: "k \<le> e" using pow2_less_cancel [of k "e + 1"] by simp
  then have emax: "max e (- 1022) = e" using k by simp
  define ulp where "ulp = pow2 (e - 52)"
  have ulp: "0 < ulp" by (simp add: ulp_def)
  have "pow2 e = pow2 52 * ulp" by (simp add: ulp_def flip: pow2_add)
  also have "pow2 52 = of_int (2 ^ 52)" by (simp add: pow2_def)
  finally have pe: "pow2 e / ulp = of_int (2 ^ 52)" using ulp by simp
  have "pow2 e / ulp \<le> q / ulp" using b(1) ulp by (simp add: divide_right_mono)
  then have "(2 ^ 52 :: int) \<le> \<lfloor>q / ulp\<rfloor>" unfolding pe by (simp only: le_floor_iff)
  then have m: "(2 ^ 52 :: int) \<le> round_half_even (q / ulp)"
    using round_half_even_ge_floor [of "q / ulp"] by linarith
  have "pow2 e = of_int (2 ^ 52) * ulp" using pe ulp by (simp add: field_simps)
  also have "\<dots> \<le> of_int (round_half_even (q / ulp)) * ulp"
    using m ulp by (intro mult_right_mono) (simp_all only: of_int_le_iff less_imp_le)
  finally have "pow2 e \<le> of_int (round_half_even (q / ulp)) * ulp" .
  then have "pow2 k \<le> of_int (round_half_even (q / ulp)) * ulp"
    using pow2_mono [OF ke] by linarith
  then show ?thesis
    by (simp add: round_pos_def Let_def emax ulp_def flip: e_def)
qed

lemma round_pos_nonneg:
  assumes "0 < q"
  shows "round_pos q = PosInfinity \<or> (\<exists>r. round_pos q = Finite r \<and> 0 \<le> r)"
proof -
  define ulp where "ulp = pow2 (max (ilog2 q) (- 1022) - 52)"
  have ulp: "0 < ulp" by (simp add: ulp_def)
  have "0 \<le> q / ulp" using assms ulp by simp
  then have "0 \<le> \<lfloor>q / ulp\<rfloor>" by simp
  then have "0 \<le> round_half_even (q / ulp)"
    using round_half_even_ge_floor [of "q / ulp"] by linarith
  then have "0 \<le> of_int (round_half_even (q / ulp)) * ulp" using ulp by simp
  then show ?thesis
    by (simp add: round_pos_def Let_def flip: ulp_def)
qed

lemma to_number_of_nat_exact:
  assumes "n < 2 ^ 53"
  shows "to_number (of_nat n) = Finite (of_nat n)"
proof (cases "n = 0")
  case True
  then show ?thesis by (simp add: to_number_def)
next
  case False
  define q :: rat where "q = of_nat n"
  have qpos: "0 < q" using False by (simp add: q_def)
  have q1: "1 \<le> q" using False by (simp add: q_def)
  have qlt: "q < pow2 53"
  proof -
    have "(of_nat n :: rat) < of_nat (2 ^ 53)" using assms by (simp only: of_nat_less_iff)
    then show ?thesis by (simp add: q_def pow2_def)
  qed
  define e where "e = ilog2 q"
  have b: "pow2 e \<le> q" "q < pow2 (e + 1)"
    using ilog2_bounds [OF qpos] by (simp_all add: e_def)
  have "pow2 0 < pow2 (e + 1)" using q1 b(2) by (simp add: pow2_def)
  then have e0: "0 \<le> e" using pow2_less_cancel [of 0 "e + 1"] by simp
  have "pow2 e < pow2 53" using b(1) qlt by linarith
  then have e53: "e \<le> 52" using pow2_less_cancel [of e 53] by simp
  have emax: "max e (- 1022) = e" using e0 by simp
  have inv: "pow2 (e - 52) = 1 / 2 ^ nat (52 - e)"
    using e53 by (cases "e = 52") (simp_all add: pow2_def)
  have "q / pow2 (e - 52) = of_int (int n * 2 ^ nat (52 - e))"
    by (simp add: inv q_def)
  then have m: "round_half_even (q / pow2 (e - 52)) = int n * 2 ^ nat (52 - e)"
    by (simp only: round_half_even_of_int)
  have r: "of_int (round_half_even (q / pow2 (e - 52))) * pow2 (e - 52) = q"
    unfolding m by (simp add: inv q_def)
  have "q < pow2 1024" using qlt pow2_mono [of 53 1024] by linarith
  then have "round_pos q = Finite q"
    by (simp add: round_pos_def Let_def emax r flip: e_def)
  then show ?thesis using qpos by (simp add: to_number_def q_def)
qed

subsection \<open>Rounding: evaluation and error bound\<close>

lemma ilog2_eqI:
  assumes "pow2 e \<le> q" "q < pow2 (e + 1)"
  shows "ilog2 q = e"
proof -
  have qpos: "0 < q" using assms(1) pow2_pos [of e] by linarith
  have b: "pow2 (ilog2 q) \<le> q" "q < pow2 (ilog2 q + 1)"
    using ilog2_bounds [OF qpos] by simp_all
  have "pow2 e < pow2 (ilog2 q + 1)" using assms(1) b(2) by linarith
  then have 1: "e < ilog2 q + 1" by (rule pow2_less_cancel)
  have "pow2 (ilog2 q) < pow2 (e + 1)" using assms(2) b(1) by linarith
  then have 2: "ilog2 q < e + 1" by (rule pow2_less_cancel)
  show ?thesis using 1 2 by simp
qed

lemma to_number_pos_eval:
  assumes "pow2 e \<le> q" "q < pow2 (e + 1)" "- 1022 \<le> e"
    and "round_half_even (q / pow2 (e - 52)) = m"
    and "of_int m * pow2 (e - 52) < pow2 1024"
  shows "to_number q = Finite (of_int m * pow2 (e - 52))"
proof -
  have qpos: "0 < q" using assms(1) pow2_pos [of e] by linarith
  have e: "max (ilog2 q) (- 1022) = e"
    using ilog2_eqI [OF assms(1,2)] assms(3) by simp
  show ?thesis
    using qpos assms(4,5) by (simp add: to_number_def round_pos_def Let_def e)
qed

lemma round_half_even_near:
  assumes "\<bar>x - of_int m\<bar> < 1 / 2"
  shows "round_half_even x = m"
proof -
  have "\<lfloor>x\<rfloor> = m \<or> \<lfloor>x\<rfloor> = m - 1"
    using assms by (auto simp: floor_eq_iff abs_less_iff)
  then show ?thesis
  proof
    assume f: "\<lfloor>x\<rfloor> = m"
    have "x - of_int m < 1 / 2" using assms by linarith
    then show ?thesis using f by (simp add: round_half_even_def Let_def)
  next
    assume f: "\<lfloor>x\<rfloor> = m - 1"
    have "- (1 / 2) < x - of_int m" using assms by linarith
    then have "1 / 2 < x - of_int (m - 1)" by simp
    then show ?thesis using f by (simp add: round_half_even_def Let_def)
  qed
qed

lemma to_number_near:
  assumes "pow2 e \<le> q" "q < pow2 (e + 1)" "- 1022 \<le> e"
    and "\<bar>q / pow2 (e - 52) - of_int m\<bar> < 1 / 2"
    and "of_int m * pow2 (e - 52) < pow2 1024"
  shows "to_number q = Finite (of_int m * pow2 (e - 52))"
  using assms(1,2,3) round_half_even_near [OF assms(4)] assms(5)
  by (rule to_number_pos_eval)

lemma lit_tenth: "to_number (1 / 10) = Finite (3602879701896397 / 36028797018963968)"
  using to_number_near [of "- 4" "1 / 10" 7205759403792794]
  by (simp add: pow2_def)

lemma lit_06: "to_number (6 / 10) = Finite (5404319552844595 / 9007199254740992)"
  using to_number_near [of "- 1" "6 / 10" 5404319552844595]
  by (simp add: pow2_def)

lemma lit_08: "to_number (8 / 10) = Finite (3602879701896397 / 4503599627370496)"
  using to_number_near [of "- 1" "8 / 10" 7205759403792794]
  by (simp add: pow2_def)

lemma round_pos_error:
  assumes lo: "pow2 (- 1022) \<le> q" and hi: "q < pow2 1023"
  shows "\<exists>r. round_pos q = Finite r \<and> \<bar>r - q\<bar> \<le> q / 2 ^ 53"
proof -
  have qpos: "0 < q" using lo pow2_pos [of "- 1022"] by linarith
  define e where "e = ilog2 q"
  have b: "pow2 e \<le> q" "q < pow2 (e + 1)"
    using ilog2_bounds [OF qpos] by (simp_all add: e_def)
  have "pow2 (- 1022) < pow2 (e + 1)" using lo b(2) by linarith
  then have elo: "- 1022 \<le> e" using pow2_less_cancel [of "- 1022" "e + 1"] by simp
  have "pow2 e < pow2 1023" using hi b(1) by linarith
  then have ehi: "e + 1 \<le> 1023" using pow2_less_cancel [of e 1023] by simp
  have emax: "max e (- 1022) = e" using elo by simp
  define ulp where "ulp = pow2 (e - 52)"
  have ulp: "0 < ulp" by (simp add: ulp_def)
  define m where "m = round_half_even (q / ulp)"
  have "\<bar>of_int m - q / ulp\<bar> \<le> 1 / 2"
    unfolding m_def round_half_even_def Let_def
    using floor_correct [of "q / ulp"] by (auto simp: abs_le_iff) 
  then have "\<bar>of_int m - q / ulp\<bar> * ulp \<le> 1 / 2 * ulp"
    using ulp by (intro mult_right_mono) simp_all
  also have "\<bar>of_int m - q / ulp\<bar> * ulp = \<bar>of_int m * ulp - q\<bar>"
  proof -
    have "of_int m * ulp - q = (of_int m - q / ulp) * ulp" using ulp by (simp add: field_simps)
    then show ?thesis using ulp by (simp add: abs_mult)
  qed
  finally have err: "\<bar>of_int m * ulp - q\<bar> \<le> ulp / 2" by simp
  have "pow2 e = pow2 53 * (ulp / 2)"
  proof -
    have "pow2 e = pow2 52 * ulp" by (simp add: ulp_def flip: pow2_add)
    then show ?thesis by (simp add: pow2_def)
  qed
  then have half: "ulp / 2 = pow2 e / 2 ^ 53" by (simp add: pow2_def)
  have "ulp / 2 \<le> q / 2 ^ 53" unfolding half using b(1) by (simp add: divide_right_mono)
  then have bound: "\<bar>of_int m * ulp - q\<bar> \<le> q / 2 ^ 53" using err by linarith
  have "q / 2 ^ 53 \<le> q" using qpos by (simp add: field_simps)
  then have "of_int m * ulp \<le> 2 * q" using bound by linarith
  also have "\<dots> < 2 * pow2 1023" using hi by simp
  also have "\<dots> = pow2 1024" by (simp add: pow2_def)
  finally have fin: "of_int m * ulp < pow2 1024" .
  show ?thesis
    using bound fin by (simp add: round_pos_def Let_def emax flip: e_def ulp_def m_def)
qed


lemma to_number_error:
  assumes "q = 0 \<or> pow2 (- 1022) \<le> q" and "q < pow2 1023"
  shows "\<exists>r. to_number q = Finite r \<and> q - q / 9007199254740992 \<le> r
           \<and> r \<le> q + q / 9007199254740992"
proof (cases "q = 0")
  case True
  then show ?thesis by (simp add: to_number_def)
next
  case False
  then have lo: "pow2 (- 1022) \<le> q" using assms(1) by simp
  then have qpos: "0 < q" using pow2_pos [of "- 1022"] by linarith
  obtain r where r: "round_pos q = Finite r" "\<bar>r - q\<bar> \<le> q / 2 ^ 53"
    using round_pos_error [OF lo assms(2)] by blast
  have "\<bar>r - q\<bar> \<le> q / 9007199254740992" using r(2) by simp
  then have "q - q / 9007199254740992 \<le> r" "r \<le> q + q / 9007199254740992"
    by linarith+
  then show ?thesis using r(1) qpos by (simp add: to_number_def)
qed

subsection \<open>The health score as a function of the critical count\<close>

lemma tiny_le: "pow2 (- 1022) \<le> 1 / 1000"
proof -
  have "pow2 (- 1022) \<le> pow2 (- 10)" by (rule pow2_mono) simp
  also have "\<dots> \<le> 1 / 1000" by (simp add: pow2_def)
  finally show ?thesis .
qed

lemma huge_ge: "1000 \<le> pow2 1023"
proof -
  have "(1000::rat) \<le> pow2 10" by (simp add: pow2_def)
  also have "\<dots> \<le> pow2 1023" by (rule pow2_mono) simp
  finally show ?thesis .
qed

lemma Math_round_near:
  assumes "\<bar>x - of_int n\<bar> < 1 / 2"
  shows "Math_round (Finite x) = Finite (of_int n)"
proof -
  have "of_int n \<le> x + 1 / 2" "x + 1 / 2 < of_int n + 1"
    using assms by linarith+
  then have "\<lfloor>x + 1 / 2\<rfloor> = n"
    by (simp only: floor_eq_iff)
  then show ?thesis by (simp add: Math_round_def)
qed

lemma score_small:
  assumes "c < 10"
  shows "num_div (Math_round (num_mul (Math_max (to_number 0)
           (num_sub (to_number 1) (num_mul (num_of_nat c) (to_number (1 / 10)))))
           (to_number 100))) (to_number 100) = to_number (max 0 (1 - of_nat c / 10))"
proof -
  let ?d = "3602879701896397 / 36028797018963968 :: rat"
  define k :: rat where "k = of_nat c"
  have k0: "k = 0 \<or> 1 \<le> k" by (cases "c = 0") (simp_all add: k_def)
  have "c \<le> 9" using assms by simp
  then have "(of_nat c :: rat) \<le> of_nat 9" by (simp only: of_nat_le_iff)
  then have k9: "k \<le> 9" by (simp add: k_def)
  have knn: "0 \<le> k" by (simp add: k_def)
  have "c < 2 ^ 53" using assms by simp
  then have c: "num_of_nat c = Finite k"
    unfolding num_of_nat_def k_def by (rule to_number_of_nat_exact)
  have one: "to_number 1 = Finite 1" using to_number_of_nat_exact [of 1] by simp
  have hundred: "to_number 100 = Finite 100" using to_number_of_nat_exact [of 100] by simp
  have "k * ?d = 0 \<or> pow2 (- 1022) \<le> k * ?d"
    using k0 tiny_le by auto
  moreover have "k * ?d < pow2 1023" using k9 huge_ge by linarith
  ultimately obtain p where p: "to_number (k * ?d) = Finite p"
      "k * ?d - k * ?d / 9007199254740992 \<le> p" "p \<le> k * ?d + k * ?d / 9007199254740992"
    using to_number_error by blast
  have p_hi: "p \<le> 91 / 100" using p(3) k9 by linarith
  have p_lo: "0 \<le> p" using p(2) knn by linarith
  have "pow2 (- 1022) \<le> 1 - p" using p_hi tiny_le by linarith
  moreover have "1 - p < pow2 1023" using p_lo huge_ge by linarith
  ultimately obtain s where s: "to_number (1 - p) = Finite s"
      "(1 - p) - (1 / 9007199254740992 - p / 9007199254740992) \<le> s"
      "s \<le> (1 - p) + (1 / 9007199254740992 - p / 9007199254740992)"
    using to_number_error [of "1 - p"] unfolding diff_divide_distrib by blast
  have s_lo: "8 / 100 \<le> s" using s(2) p_hi by linarith
  have s_hi: "s \<le> 101 / 100" using s(3) p_lo by linarith
  have "pow2 (- 1022) \<le> s * 100" using s_lo tiny_le by linarith
  moreover have "s * 100 < pow2 1023" using s_hi huge_ge by linarith
  ultimately obtain x where x: "to_number (s * 100) = Finite x"
      "s * 100 - s * 100 / 9007199254740992 \<le> x" "x \<le> s * 100 + s * 100 / 9007199254740992"
    using to_number_error by blast
  have mx: "Math_max (Finite 0) (Finite s) = Finite s"
    using s_lo by (simp add: Math_max_def)
  have "x - (100 - 10 * k) < 1 / 2"
    using x(3) s(3) p(2) knn k9 by linarith
  moreover have "- (1 / 2) < x - (100 - 10 * k)"
    using x(2) s(2) p(3) knn k9 by linarith
  ultimately have "\<bar>x - (100 - 10 * k)\<bar> < 1 / 2" by linarith
  then have "\<bar>x - of_int (100 - 10 * int c)\<bar> < 1 / 2" by (simp add: k_def)
  then have rd: "Math_round (Finite x) = Finite (of_int (100 - 10 * int c))"
    by (rule Math_round_near)
  have e1: "num_mul (num_of_nat c) (to_number (1 / 10)) = Finite p"
    unfolding c lit_tenth num_mul.simps by (rule p(1))
  have e2: "num_sub (to_number 1) (Finite p) = Finite s"
    unfolding one num_sub.simps by (rule s(1))
  have e3: "Math_max (to_number 0) (Finite s) = Finite s"
    using mx by (simp add: to_number_def)
  have e4: "num_mul (Finite s) (to_number 100) = Finite x"
    unfolding hundred num_mul.simps by (rule x(1))
  have e5: "num_div (Finite (of_int (100 - 10 * int c))) (to_number 100)
            = to_number (of_int (100 - 10 * int c) / 100)"
    unfolding hundred by simp
  have e6: "(of_int (100 - 10 * int c) :: rat) / 100 = max 0 (1 - of_nat c / 10)"
    using k9 by (simp add: k_def)
  show ?thesis
    unfolding e1 e2 e3 e4 rd e5 e6 by (rule refl)
qed

lemma lit_0: "to_number 0 = Finite 0"
  by (simp add: to_number_def)

lemma lit_1: "to_number 1 = Finite 1"
  using to_number_of_nat_exact [of 1] by simp

lemma lit_100: "to_number 100 = Finite 100"
  using to_number_of_nat_exact [of 100] by simp

lemma num_of_nat_ge_10:
  assumes "10 \<le> c"
  shows "num_of_nat c = PosInfinity \<or> (\<exists>r. num_of_nat c = Finite r \<and> 10 \<le> r)"
proof (cases "c < 2 ^ 53")
  case True
  have "(of_nat 10 :: rat) \<le> of_nat c" using assms by (simp only: of_nat_le_iff)
  then show ?thesis
    using to_number_of_nat_exact [OF True] by (simp add: num_of_nat_def)
next
  case False
  then have "2 ^ 53 \<le> c" by simp
  then have "(of_nat (2 ^ 53) :: rat) \<le> of_nat c" by (simp only: of_nat_le_iff)
  then have le: "pow2 53 \<le> of_nat c" by (simp add: pow2_def)
  then have pos: "(0::rat) < of_nat c" using pow2_pos [of 53] by linarith
  have ten: "(10::rat) \<le> pow2 53" by (simp add: pow2_def)
  have rp: "num_of_nat c = round_pos (of_nat c)"
    using pos by (simp add: num_of_nat_def to_number_def)
  show ?thesis
    using round_pos_lower [OF le] ten unfolding rp by force
qed

lemma penalty_ge_1:
  assumes "10 \<le> c"
  shows "num_mul (num_of_nat c) (to_number (1 / 10)) = PosInfinity
         \<or> (\<exists>p. num_mul (num_of_nat c) (to_number (1 / 10)) = Finite p \<and> 1 \<le> p)"
proof -
  let ?d = "3602879701896397 / 36028797018963968 :: rat"
  consider "num_of_nat c = PosInfinity" | r where "num_of_nat c = Finite r" "10 \<le> r"
    using num_of_nat_ge_10 [OF assms] by blast
  then show ?thesis
  proof cases
    case 1
    then show ?thesis by (simp add: lit_tenth)
  next
    case 2
    have "1 \<le> 10 * ?d" by simp
    also have "\<dots> \<le> r * ?d" using 2(2) by (intro mult_right_mono) simp_all
    finally have le1: "1 \<le> r * ?d" .
    then have le: "pow2 0 \<le> r * ?d" by (simp add: pow2_def)
    have pos: "0 < r * ?d" using le1 by linarith
    have mul: "num_mul (Finite r) (Finite ?d) = round_pos (r * ?d)"
      using pos unfolding num_mul.simps to_number_def by simp
    have "round_pos (r * ?d) = PosInfinity \<or> (\<exists>p. round_pos (r * ?d) = Finite p \<and> 1 \<le> p)"
      using round_pos_lower [OF le] by (simp add: pow2_def)
    then show ?thesis
      unfolding 2(1) lit_tenth mul .
  qed
qed

lemma score_zero:
  assumes "10 \<le> c"
  shows "Math_max (to_number 0) (num_sub (to_number 1) (num_mul (num_of_nat c) (to_number (1 / 10))))
         = Finite 0"
proof -
  let ?p = "num_mul (num_of_nat c) (to_number (1 / 10))"
  consider "?p = PosInfinity" | p where "?p = Finite p" "1 \<le> p"
    using penalty_ge_1 [OF assms] by blast
  then show ?thesis
  proof cases
    case 1
    show ?thesis unfolding 1 lit_1 lit_0 by (simp add: Math_max_def num_neg_def)
  next
    case 2
    show ?thesis
    proof (cases "p = 1")
      case True
      show ?thesis unfolding 2(1) lit_1 lit_0 True by (simp add: Math_max_def lit_0)
    next
      case False
      then have pos: "0 < p - 1" using 2(2) by simp
      have "to_number (1 - p) = num_neg (round_pos (p - 1))"
        using pos by (simp add: to_number_def)
      then have sub: "num_sub (Finite 1) (Finite p) = num_neg (round_pos (p - 1))"
        by simp
      show ?thesis
        using round_pos_nonneg [OF pos] unfolding 2(1) lit_1 lit_0 sub
        by (auto simp: Math_max_def num_neg_def)
    qed
  qed
qed

lemma Math_round_0: "Math_round (Finite 0) = Finite 0"
  using Math_round_near [of 0 0] by simp

lemma score_large:
  assumes "10 \<le> c"
  shows "num_div (Math_round (num_mul (Math_max (to_number 0)
           (num_sub (to_number 1) (num_mul (num_of_nat c) (to_number (1 / 10)))))
           (to_number 100))) (to_number 100) = Finite 0"
proof -
  have m: "num_mul (Finite 0) (Finite 100) = Finite 0" by (simp add: lit_0)
  have d: "num_div (Finite 0) (Finite 100) = Finite 0" by (simp add: lit_0)
  show ?thesis
    unfolding score_zero [OF assms] lit_100 m Math_round_0 d by (rule refl)
qed

lemma healthScore_eq:
  "healthScore vs
     = to_number (max 0 (1 - of_nat (length (filter (\<lambda>v. severity v = CRITICAL) vs)) / 10))"
proof (cases "length (filter (\<lambda>v. severity v = CRITICAL) vs) < 10")
  case True
  then show ?thesis
    unfolding healthScore_def Let_def by (rule score_small)
next
  case False
  then have c: "10 \<le> length (filter (\<lambda>v. severity v = CRITICAL) vs)" by simp
  have "(of_nat 10 :: rat) \<le> of_nat (length (filter (\<lambda>v. severity v = CRITICAL) vs))"
    using c by (simp only: of_nat_le_iff)
  then have "max 0 (1 - of_nat (length (filter (\<lambda>v. severity v = CRITICAL) vs)) / 10) = (0::rat)"
    by simp
  then show ?thesis
    unfolding healthScore_def Let_def score_large [OF c] by (simp add: lit_0)
qed

section \<open>Facts about the two passes\<close>

lemma fold_index_frame:
  assumes frame: "\<And>x st. arr (callback x st) = arr st"
  shows "arr s = xs \<Longrightarrow> \<forall>k \<in> set ks. k < length xs \<Longrightarrow>
     fold (\<lambda>k st. if k < length (arr st) then callback (arr st ! k) st else st) ks s
       = fold callback (map (nth xs) ks) s"
proof (induction ks arbitrary: s)
  case Nil
  then show ?case by simp
next
  case (Cons k ks)
  have "arr (callback (xs ! k) s) = xs"
    using frame Cons.prems(1) by simp
  then show ?case
    using Cons by simp
qed

lemma forEach_fold:
  assumes frame: "\<And>x st. arr (callback x st) = arr st"
  shows "forEach arr callback s = fold callback (arr s) s"
proof -
  have "fold (\<lambda>k st. if k < length (arr st) then callback (arr st ! k) st else st)
          [0..<length (arr s)] s
        = fold callback (map (nth (arr s)) [0..<length (arr s)]) s"
    using frame by (intro fold_index_frame) auto
  then show ?thesis by (simp add: forEach_def map_nth)
qed

lemma eventCallback_events [simp]: "st_allEvents (eventCallback e s) = st_allEvents s"
  by (simp add: eventCallback_def push_def Let_def)

lemma eventCallback_statuses [simp]: "st_allStatuses (eventCallback e s) = st_allStatuses s"
  by (simp add: eventCallback_def push_def Let_def)

lemma statusCallback_events [simp]: "st_allEvents (statusCallback f x s) = st_allEvents s"
  by (simp add: statusCallback_def push_def)

lemma statusCallback_statuses [simp]: "st_allStatuses (statusCallback f x s) = st_allStatuses s"
  by (simp add: statusCallback_def push_def)

lemma statusCallback_count [simp]:
  "st_criticalAssetCount (statusCallback f x s) = st_criticalAssetCount s"
  by (simp add: statusCallback_def push_def)

lemma fold_eventCallback_events [simp]:
  "st_allEvents (fold eventCallback es s) = st_allEvents s"
  by (induction es arbitrary: s) auto

lemma fold_eventCallback_statuses [simp]:
  "st_allStatuses (fold eventCallback es s) = st_allStatuses s"
  by (induction es arbitrary: s) auto

lemma fold_statusCallback_events [simp]:
  "st_allEvents (fold (statusCallback f) xs s) = st_allEvents s"
  by (induction xs arbitrary: s) auto

lemma fold_statusCallback_statuses [simp]:
  "st_allStatuses (fold (statusCallback f) xs s) = st_allStatuses s"
  by (induction xs arbitrary: s) auto

lemma fold_statusCallback_count [simp]:
  "st_criticalAssetCount (fold (statusCallback f) xs s) = st_criticalAssetCount s"
  by (induction xs arbitrary: s) auto

lemma scan_passes_fold:
  "scan_passes f es ss = fold (statusCallback f) ss (fold eventCallback es (init_state es ss))"
  by (simp add: scan_passes_def forEach_fold init_state_def)

lemma payload_missing_iff: "payload_missing p \<longleftrightarrow> p = None \<or> p = Some []"
  by (cases p) (auto simp: payload_missing_def Object_keys_def)

lemma fold_eventCallback_count:
  "st_criticalAssetCount (fold eventCallback es s)
     = st_criticalAssetCount s + length (filter (\<lambda>e. statusCode e = ERROR) es)"
  by (induction es arbitrary: s) (auto simp: eventCallback_def push_def Let_def)

lemma eventCallback_violations:
  "st_violations (eventCallback e s)
     = st_violations s @ st_violations (eventCallback e (init_state [] []))"
  by (simp add: eventCallback_def push_def Let_def init_state_def)

lemma statusCallback_violations:
  "st_violations (statusCallback f x s)
     = st_violations s @ st_violations (statusCallback f x (init_state [] []))"
  by (simp add: statusCallback_def push_def init_state_def)

lemma fold_eventCallback_violations:
  "st_violations (fold eventCallback es s)
     = st_violations s @ concat (map (\<lambda>e. st_violations (eventCallback e (init_state [] []))) es)"
proof (induction es arbitrary: s)
  case Nil
  then show ?case by simp
next
  case (Cons e es)
  show ?case
    using Cons.IH [of "eventCallback e s"] eventCallback_violations [of e s] by simp
qed

lemma fold_statusCallback_violations:
  "st_violations (fold (statusCallback f) xs s)
     = st_violations s @ concat (map (\<lambda>x. st_violations (statusCallback f x (init_state [] []))) xs)"
proof (induction xs arbitrary: s)
  case Nil
  then show ?case by simp
next
  case (Cons x xs)
  show ?case
    using Cons.IH [of "statusCallback f x s"] statusCallback_violations [of f x s] by simp
qed

lemma scan_passes_violations:
  "st_violations (scan_passes f es ss)
     = concat (map (\<lambda>e. st_violations (eventCallback e (init_state [] []))) es)
       @ concat (map (\<lambda>x. st_violations (statusCallback f x (init_state [] []))) ss)"
  by (simp add: scan_passes_fold fold_statusCallback_violations fold_eventCallback_violations
      init_state_def)

lemma scan_passes_count:
  "st_criticalAssetCount (scan_passes f es ss) = length (filter (\<lambda>e. statusCode e = ERROR) es)"
  by (simp add: scan_passes_fold fold_eventCallback_count init_state_def)

lemma report_violations:
  "violations (runIntegrityScan f clk es ss) = st_violations (scan_passes f es ss)"
  by (simp add: runIntegrityScan_def Let_def)

lemma report_count:
  "criticalAssetCount (runIntegrityScan f clk es ss) = st_criticalAssetCount (scan_passes f es ss)"
  by (simp add: runIntegrityScan_def Let_def)

lemma report_score:
  "systemHealthScore (runIntegrityScan f clk es ss) = healthScore (st_violations (scan_passes f es ss))"
  by (simp add: runIntegrityScan_def Let_def)

lemma event_violation_cases:
  "st_violations (eventCallback e (init_state [] []))
     = (if statusCode e = ERROR \<and> (dataPayload e = None \<or> dataPayload e = Some [])
        then [\<lparr>id_v = assetUuid e, type_v = DATA_INTEGRITY,
               description = ''Asset reported ERROR status without required audit payload.'',
               severity = CRITICAL, protocolRef = ''CCP-3.1''\<rparr>]
        else [])"
  by (simp add: eventCallback_def push_def Let_def init_state_def payload_missing_iff)

lemma status_violation_cases:
  "st_violations (statusCallback f x (init_state [] []))
     = (if num_lt (trustRating x) (to_number (6 / 10)) \<and> currentTaskId x \<noteq> None
        then [\<lparr>id_v = operatorId x, type_v = TRUST_VIOLATION,
               description = ''Sub-baseline Operator ('' @ f (trustRating x)
                               @ '') actively assigned to task.'',
               severity = CRITICAL, protocolRef = ''CCP-4.1''\<rparr>]
        else if num_lt (trustRating x) (to_number (8 / 10)) \<and> currentTaskId x = None
        then [\<lparr>id_v = operatorId x, type_v = PROTOCOL_BREACH,
               description = ''Operator trust unstable; requires immediate Skill Verification pathway.'',
               severity = WARNING, protocolRef = ''CCP-4.2''\<rparr>]
        else [])"
  by (simp add: statusCallback_def push_def init_state_def)

lemma concat_map_if_filter:
  "concat (map (\<lambda>x. if P x then [g x] else []) xs) = map g (filter P xs)"
  by (induction xs) auto

subsection \<open>The scan of the fixtures\<close>

lemma mock_jane: "to_number (95 / 100) = Finite (4278419646001971 / 4503599627370496)"
  using to_number_near [of "- 1" "95 / 100" 8556839292003942]
  by (simp add: pow2_def)

lemma mock_joe: "to_number (58 / 100) = Finite (5224175567749775 / 9007199254740992)"
  using to_number_near [of "- 1" "58 / 100" 5224175567749775]
  by (simp add: pow2_def)

lemma mock_kore: "to_number (72 / 100) = Finite (3242591731706757 / 4503599627370496)"
  using to_number_near [of "- 1" "72 / 100" 6485183463413514]
  by (simp add: pow2_def)

lemma mock_violations:
  "st_violations (scan_passes f (MOCK_ASSET_EVENTS t1 t2) MOCK_OPERATOR_STATUSES)
     = [\<lparr>id_v = ''ASSET-202'', type_v = DATA_INTEGRITY,
         description = ''Asset reported ERROR status without required audit payload.'',
         severity = CRITICAL, protocolRef = ''CCP-3.1''\<rparr>,
        \<lparr>id_v = ''OP-JOE'', type_v = TRUST_VIOLATION,
         description = ''Sub-baseline Operator ('' @ f (to_number (58 / 100))
                         @ '') actively assigned to task.'',
         severity = CRITICAL, protocolRef = ''CCP-4.1''\<rparr>,
        \<lparr>id_v = ''OP-KORE'', type_v = PROTOCOL_BREACH,
         description = ''Operator trust unstable; requires immediate Skill Verification pathway.'',
         severity = WARNING, protocolRef = ''CCP-4.2''\<rparr>]"
  unfolding scan_passes_violations event_violation_cases status_violation_cases
    MOCK_ASSET_EVENTS_def MOCK_OPERATOR_STATUSES_def lit_06 lit_08 mock_jane mock_joe mock_kore
  by simp

lemma mock_count:
  "st_criticalAssetCount (scan_passes f (MOCK_ASSET_EVENTS t1 t2) MOCK_OPERATOR_STATUSES) = 1"
  unfolding scan_passes_count MOCK_ASSET_EVENTS_def by simp

lemma mock_score:
  "healthScore (st_violations (scan_passes f (MOCK_ASSET_EVENTS t1 t2) MOCK_OPERATOR_STATUSES))
     = to_number (8 / 10)"
  unfolding healthScore_eq mock_violations by simp

subsection \<open>The two thresholds\<close>

lemma num_lt_Finite_trans: "num_lt x (Finite a) \<Longrightarrow> a \<le> b \<Longrightarrow> num_lt x (Finite b)"
  by (cases x) auto

lemma lt_06_imp_lt_08: "num_lt x (to_number (6 / 10)) \<Longrightarrow> num_lt x (to_number (8 / 10))"
  unfolding lit_06 lit_08 by (erule num_lt_Finite_trans) simp

section \<open>The claims\<close>

subsection \<open>C1: the scan of the fixtures\<close>

text \<open>
  C1 as stated asks for exactly 2 violations on the fixtures. The scan of the fixtures
  returns three (ASSET-202, OP-JOE and OP-KORE), so the length of the list is not 2.
\<close>

theorem mock_scan_exactly_two_violations_counterexample:
  "length (violations (runIntegrityScan (\<lambda>x. ''0.58'') (\<lambda>k. Finite 0)
      (MOCK_ASSET_EVENTS (Finite 0) (Finite 0)) MOCK_OPERATOR_STATUSES)) \<noteq> 2"
  by (simp add: report_violations mock_violations)

text \<open>
  C1, amended: on the fixtures (2 asset events, 3 operator statuses), whatever the clock
  and the load-time timestamps are, the report has exactly 3 violations, in this order:
  ASSET-202 with CCP-3.1 and OP-JOE with CCP-4.1, both CRITICAL, then OP-KORE with
  CCP-4.2, a WARNING; \<open>criticalAssetCount\<close> is 1 and \<open>systemHealthScore\<close> is the number
  \<open>0.8\<close>.
\<close>

theorem mock_scan_report:
  "violations (runIntegrityScan f clk (MOCK_ASSET_EVENTS t1 t2) MOCK_OPERATOR_STATUSES)
     = [\<lparr>id_v = ''ASSET-202'', type_v = DATA_INTEGRITY,
         description = ''Asset reported ERROR status without required audit payload.'',
         severity = CRITICAL, protocolRef = ''CCP-3.1''\<rparr>,
        \<lparr>id_v = ''OP-JOE'', type_v = TRUST_VIOLATION,
         description = ''Sub-baseline Operator ('' @ f (to_number (58 / 100))
                         @ '') actively assigned to task.'',
         severity = CRITICAL, protocolRef = ''CCP-4.1''\<rparr>,
        \<lparr>id_v = ''OP-KORE'', type_v = PROTOCOL_BREACH,
         description = ''Operator trust unstable; requires immediate Skill Verification pathway.'',
         severity = WARNING, protocolRef = ''CCP-4.2''\<rparr>]
   \<and> criticalAssetCount (runIntegrityScan f clk (MOCK_ASSET_EVENTS t1 t2) MOCK_OPERATOR_STATUSES) = 1
   \<and> systemHealthScore (runIntegrityScan f clk (MOCK_ASSET_EVENTS t1 t2) MOCK_OPERATOR_STATUSES)
       = to_number (8 / 10)"
proof (intro conjI)
  show "violations (runIntegrityScan f clk (MOCK_ASSET_EVENTS t1 t2) MOCK_OPERATOR_STATUSES)
     = [\<lparr>id_v = ''ASSET-202'', type_v = DATA_INTEGRITY,
         description = ''Asset reported ERROR status without required audit payload.'',
         severity = CRITICAL, protocolRef = ''CCP-3.1''\<rparr>,
        \<lparr>id_v = ''OP-JOE'', type_v = TRUST_VIOLATION,
         description = ''Sub-baseline Operator ('' @ f (to_number (58 / 100))
                         @ '') actively assigned to task.'',
         severity = CRITICAL, protocolRef = ''CCP-4.1''\<rparr>,
        \<lparr>id_v = ''OP-KORE'', type_v = PROTOCOL_BREACH,
         description = ''Operator trust unstable; requires immediate Skill Verification pathway.'',
         severity = WARNING, protocolRef = ''CCP-4.2''\<rparr>]"
    by (simp only: report_violations mock_violations)
  show "criticalAssetCount (runIntegrityScan f clk (MOCK_ASSET_EVENTS t1 t2) MOCK_OPERATOR_STATUSES) = 1"
    by (simp only: report_count mock_count)
  show "systemHealthScore (runIntegrityScan f clk (MOCK_ASSET_EVENTS t1 t2) MOCK_OPERATOR_STATUSES)
       = to_number (8 / 10)"
    by (simp only: report_score mock_score)
qed

subsection \<open>C2: pass A\<close>

text \<open>
  C2: for every list of asset events, \<open>criticalAssetCount\<close> is the number of events with
  status ERROR, and the violations that the events contribute are, in order, one
  DATA_INTEGRITY / CRITICAL / CCP-3.1 violation with the asset's uuid as id for each event
  that has status ERROR and a payload that is absent or has no entries; they stand in
  front of what the operators contribute. In particular an ERROR event with an entry in
  its payload counts and yields no violation, and an event with another status does
  neither.
\<close>

theorem asset_pass:
  "criticalAssetCount (runIntegrityScan f clk es ss)
     = length (filter (\<lambda>e. statusCode e = ERROR) es)
   \<and> violations (runIntegrityScan f clk es ss)
     = map (\<lambda>e. \<lparr>id_v = assetUuid e, type_v = DATA_INTEGRITY,
                  description = ''Asset reported ERROR status without required audit payload.'',
                  severity = CRITICAL, protocolRef = ''CCP-3.1''\<rparr>)
         (filter (\<lambda>e. statusCode e = ERROR \<and> (dataPayload e = None \<or> dataPayload e = Some [])) es)
       @ violations (runIntegrityScan f clk [] ss)
   \<and> (statusCode e = ERROR \<and> dataPayload e = Some (kv # obj) \<longrightarrow>
        criticalAssetCount (runIntegrityScan f clk [e] []) = 1
        \<and> violations (runIntegrityScan f clk [e] []) = [])
   \<and> (statusCode e \<noteq> ERROR \<longrightarrow>
        criticalAssetCount (runIntegrityScan f clk [e] []) = 0
        \<and> violations (runIntegrityScan f clk [e] []) = [])"
  by (simp add: report_violations report_count scan_passes_violations scan_passes_count
      event_violation_cases concat_map_if_filter)

theorem asset_pass_witness:
  "statusCode \<lparr>assetUuid = ''ASSET-303'', originKey = ''SCAN-C'',
       location = \<lparr>latitude = Finite 34, longitude = Finite (- 118), zoneId = Some ''Z1''\<rparr>,
       timestamp = Finite 0, statusCode = ERROR,
       dataPayload = Some [(''code'', AnyString ''E42'')]\<rparr> = ERROR
   \<and> criticalAssetCount (runIntegrityScan (\<lambda>x. ''0.58'') (\<lambda>k. Finite 0)
       [\<lparr>assetUuid = ''ASSET-303'', originKey = ''SCAN-C'',
         location = \<lparr>latitude = Finite 34, longitude = Finite (- 118), zoneId = Some ''Z1''\<rparr>,
         timestamp = Finite 0, statusCode = ERROR,
         dataPayload = Some [(''code'', AnyString ''E42'')]\<rparr>] []) = 1
   \<and> violations (runIntegrityScan (\<lambda>x. ''0.58'') (\<lambda>k. Finite 0)
       [\<lparr>assetUuid = ''ASSET-303'', originKey = ''SCAN-C'',
         location = \<lparr>latitude = Finite 34, longitude = Finite (- 118), zoneId = Some ''Z1''\<rparr>,
         timestamp = Finite 0, statusCode = ERROR,
         dataPayload = Some [(''code'', AnyString ''E42'')]\<rparr>] []) = []
   \<and> statusCode \<lparr>assetUuid = ''ASSET-404'', originKey = ''SCAN-D'',
       location = \<lparr>latitude = Finite 34, longitude = Finite (- 118), zoneId = None\<rparr>,
       timestamp = Finite 0, statusCode = IDLE, dataPayload = None\<rparr> \<noteq> ERROR
   \<and> criticalAssetCount (runIntegrityScan (\<lambda>x. ''0.58'') (\<lambda>k. Finite 0)
       [\<lparr>assetUuid = ''ASSET-404'', originKey = ''SCAN-D'',
         location = \<lparr>latitude = Finite 34, longitude = Finite (- 118), zoneId = None\<rparr>,
         timestamp = Finite 0, statusCode = IDLE, dataPayload = None\<rparr>] []) = 0
   \<and> violations (runIntegrityScan (\<lambda>x. ''0.58'') (\<lambda>k. Finite 0)
       [\<lparr>assetUuid = ''ASSET-404'', originKey = ''SCAN-D'',
         location = \<lparr>latitude = Finite 34, longitude = Finite (- 118), zoneId = None\<rparr>,
         timestamp = Finite 0, statusCode = IDLE, dataPayload = None\<rparr>] []) = []"
  using
    asset_pass [of "\<lambda>x. ''0.58''" "\<lambda>k. Finite 0" "[]" "[]"
      "\<lparr>assetUuid = ''ASSET-303'', originKey = ''SCAN-C'',
        location = \<lparr>latitude = Finite 34, longitude = Finite (- 118), zoneId = Some ''Z1''\<rparr>,
        timestamp = Finite 0, statusCode = ERROR,
        dataPayload = Some [(''code'', AnyString ''E42'')]\<rparr>"
      "(''code'', AnyString ''E42'')" "[]"]
    asset_pass [of "\<lambda>x. ''0.58''" "\<lambda>k. Finite 0" "[]" "[]"
      "\<lparr>assetUuid = ''ASSET-404'', originKey = ''SCAN-D'',
        location = \<lparr>latitude = Finite 34, longitude = Finite (- 118), zoneId = None\<rparr>,
        timestamp = Finite 0, statusCode = IDLE, dataPayload = None\<rparr>"]
  by simp

subsection \<open>C3: pass B\<close>

text \<open>
  C3: every operator status contributes at most one violation, decided by two branches in
  this order: a trust rating below \<open>0.6\<close> with a task gives one TRUST_VIOLATION / CRITICAL /
  CCP-4.1 violation; otherwise a trust rating below \<open>0.8\<close> with no task gives one
  PROTOCOL_BREACH / WARNING / CCP-4.2 violation; otherwise there is none. The id is the
  operator's id. The operators' violations follow those of the events, in the order of
  the operators. In particular a rating below \<open>0.6\<close> with no task gives exactly the WARNING;
  a rating not below \<open>0.6\<close> with a task, and a rating not below \<open>0.8\<close> with no task, give
  nothing (a rating that is NaN is not below anything).
\<close>

theorem operator_pass:
  "violations (runIntegrityScan f clk es ss)
     = violations (runIntegrityScan f clk es [])
       @ concat (map (\<lambda>s.
           if num_lt (trustRating s) (to_number (6 / 10)) \<and> currentTaskId s \<noteq> None
           then [\<lparr>id_v = operatorId s, type_v = TRUST_VIOLATION,
                  description = ''Sub-baseline Operator ('' @ f (trustRating s)
                                  @ '') actively assigned to task.'',
                  severity = CRITICAL, protocolRef = ''CCP-4.1''\<rparr>]
           else if num_lt (trustRating s) (to_number (8 / 10)) \<and> currentTaskId s = None
           then [\<lparr>id_v = operatorId s, type_v = PROTOCOL_BREACH,
                  description = ''Operator trust unstable; requires immediate Skill Verification pathway.'',
                  severity = WARNING, protocolRef = ''CCP-4.2''\<rparr>]
           else []) ss)
   \<and> length (violations (runIntegrityScan f clk [] [s])) \<le> 1
   \<and> (num_lt (trustRating s) (to_number (6 / 10)) \<and> currentTaskId s = None \<longrightarrow>
        violations (runIntegrityScan f clk [] [s])
          = [\<lparr>id_v = operatorId s, type_v = PROTOCOL_BREACH,
               description = ''Operator trust unstable; requires immediate Skill Verification pathway.'',
               severity = WARNING, protocolRef = ''CCP-4.2''\<rparr>])
   \<and> (\<not> num_lt (trustRating s) (to_number (6 / 10)) \<and> currentTaskId s \<noteq> None \<longrightarrow>
        violations (runIntegrityScan f clk [] [s]) = [])
   \<and> (\<not> num_lt (trustRating s) (to_number (8 / 10)) \<and> currentTaskId s = None \<longrightarrow>
        violations (runIntegrityScan f clk [] [s]) = [])"
  using lt_06_imp_lt_08 [of "trustRating s"]
  by (auto simp add: report_violations scan_passes_violations status_violation_cases)

theorem operator_pass_witness:
  "num_lt (trustRating \<lparr>operatorId = ''OP-LOW'', trustRating = Finite (1 / 2), currentTaskId = None,
       lastKnownLocation = \<lparr>latitude = Finite 34, longitude = Finite (- 118)\<rparr>, role = AGENT\<rparr>)
     (to_number (6 / 10))
   \<and> currentTaskId \<lparr>operatorId = ''OP-LOW'', trustRating = Finite (1 / 2), currentTaskId = None,
       lastKnownLocation = \<lparr>latitude = Finite 34, longitude = Finite (- 118)\<rparr>, role = AGENT\<rparr> = None
   \<and> violations (runIntegrityScan (\<lambda>x. ''0.50'') (\<lambda>k. Finite 0) []
       [\<lparr>operatorId = ''OP-LOW'', trustRating = Finite (1 / 2), currentTaskId = None,
         lastKnownLocation = \<lparr>latitude = Finite 34, longitude = Finite (- 118)\<rparr>, role = AGENT\<rparr>])
     = [\<lparr>id_v = ''OP-LOW'', type_v = PROTOCOL_BREACH,
         description = ''Operator trust unstable; requires immediate Skill Verification pathway.'',
         severity = WARNING, protocolRef = ''CCP-4.2''\<rparr>]
   \<and> \<not> num_lt (trustRating \<lparr>operatorId = ''OP-MID'', trustRating = Finite (3 / 4),
       currentTaskId = Some ''T-1'',
       lastKnownLocation = \<lparr>latitude = Finite 34, longitude = Finite (- 118)\<rparr>, role = PILOT\<rparr>)
     (to_number (6 / 10))
   \<and> violations (runIntegrityScan (\<lambda>x. ''0.50'') (\<lambda>k. Finite 0) []
       [\<lparr>operatorId = ''OP-MID'', trustRating = Finite (3 / 4), currentTaskId = Some ''T-1'',
         lastKnownLocation = \<lparr>latitude = Finite 34, longitude = Finite (- 118)\<rparr>, role = PILOT\<rparr>])
     = []
   \<and> \<not> num_lt (trustRating \<lparr>operatorId = ''OP-HIGH'', trustRating = Finite (7 / 8),
       currentTaskId = None,
       lastKnownLocation = \<lparr>latitude = Finite 34, longitude = Finite (- 118)\<rparr>, role = COMMAND\<rparr>)
     (to_number (8 / 10))
   \<and> violations (runIntegrityScan (\<lambda>x. ''0.50'') (\<lambda>k. Finite 0) []
       [\<lparr>operatorId = ''OP-HIGH'', trustRating = Finite (7 / 8), currentTaskId = None,
         lastKnownLocation = \<lparr>latitude = Finite 34, longitude = Finite (- 118)\<rparr>, role = COMMAND\<rparr>])
     = []"
proof -
  have a: "num_lt (Finite (1 / 2)) (to_number (6 / 10))" unfolding lit_06 by simp
  have b: "\<not> num_lt (Finite (3 / 4)) (to_number (6 / 10))" unfolding lit_06 by simp
  have c: "\<not> num_lt (Finite (7 / 8)) (to_number (8 / 10))" unfolding lit_08 by simp
  show ?thesis
    using a b c
      operator_pass [of "\<lambda>x. ''0.50''" "\<lambda>k. Finite 0" "[]" "[]"
        "\<lparr>operatorId = ''OP-LOW'', trustRating = Finite (1 / 2), currentTaskId = None,
          lastKnownLocation = \<lparr>latitude = Finite 34, longitude = Finite (- 118)\<rparr>, role = AGENT\<rparr>"]
      operator_pass [of "\<lambda>x. ''0.50''" "\<lambda>k. Finite 0" "[]" "[]"
        "\<lparr>operatorId = ''OP-MID'', trustRating = Finite (3 / 4), currentTaskId = Some ''T-1'',
          lastKnownLocation = \<lparr>latitude = Finite 34, longitude = Finite (- 118)\<rparr>, role = PILOT\<rparr>"]
      operator_pass [of "\<lambda>x. ''0.50''" "\<lambda>k. Finite 0" "[]" "[]"
        "\<lparr>operatorId = ''OP-HIGH'', trustRating = Finite (7 / 8), currentTaskId = None,
          lastKnownLocation = \<lparr>latitude = Finite 34, longitude = Finite (- 118)\<rparr>, role = COMMAND\<rparr>"]
    by simp
qed

subsection \<open>C4: the health score\<close>

text \<open>
  C4: for every input, \<open>systemHealthScore\<close> is the number nearest to
  \<open>max(0, 1 - c / 10)\<close> rounded to two decimal places, where \<open>c\<close> is the number of
  violations of the report with severity CRITICAL; the rounding changes nothing, the
  value being a multiple of a tenth. So the score is 0 as soon as \<open>c\<close> is at least 10, and
  1 when \<open>c\<close> is 0. The code computes it with five rounded operations; the proof bounds
  their errors.
\<close>

theorem health_score_formula:
  "systemHealthScore (runIntegrityScan f clk es ss)
     = to_number (of_int \<lfloor>(max 0 (1 - of_nat (length (filter (\<lambda>v. severity v = CRITICAL)
         (violations (runIntegrityScan f clk es ss)))) / 10) * 100 + 1 / 2 :: rat)\<rfloor> / 100)
   \<and> systemHealthScore (runIntegrityScan f clk es ss)
     = to_number (max 0 (1 - of_nat (length (filter (\<lambda>v. severity v = CRITICAL)
         (violations (runIntegrityScan f clk es ss)))) / 10))
   \<and> (10 \<le> length (filter (\<lambda>v. severity v = CRITICAL) (violations (runIntegrityScan f clk es ss)))
        \<longrightarrow> systemHealthScore (runIntegrityScan f clk es ss) = Finite 0)
   \<and> (length (filter (\<lambda>v. severity v = CRITICAL) (violations (runIntegrityScan f clk es ss))) = 0
        \<longrightarrow> systemHealthScore (runIntegrityScan f clk es ss) = Finite 1)"
proof -
  define c where
    "c = length (filter (\<lambda>v. severity v = CRITICAL) (violations (runIntegrityScan f clk es ss)))"
  have score: "systemHealthScore (runIntegrityScan f clk es ss)
                 = to_number (max 0 (1 - of_nat c / 10))"
    unfolding c_def report_score report_violations by (rule healthScore_eq)
  have tenths: "max 0 (1 - of_nat c / 10) * 100 = (of_int (max 0 (100 - 10 * int c)) :: rat)"
    by (simp add: max_def)
  have round2: "(of_int \<lfloor>(max 0 (1 - of_nat c / 10) * 100 + 1 / 2 :: rat)\<rfloor> :: rat) / 100
                  = max 0 (1 - of_nat c / 10)"
  proof -
    have "\<lfloor>(of_int (max 0 (100 - 10 * int c)) :: rat) + 1 / 2\<rfloor> = max 0 (100 - 10 * int c)"
      by (simp only: floor_eq_iff) simp
    then have "(of_int \<lfloor>(max 0 (1 - of_nat c / 10) * 100 + 1 / 2 :: rat)\<rfloor> :: rat)
                 = max 0 (1 - of_nat c / 10) * 100"
      unfolding tenths by simp
    then show ?thesis by simp
  qed
  have big: "10 \<le> c \<Longrightarrow> to_number (max 0 (1 - of_nat c / 10)) = Finite 0"
  proof -
    assume "10 \<le> c"
    then have "(of_nat 10 :: rat) \<le> of_nat c" by (simp only: of_nat_le_iff)
    then have "max 0 (1 - of_nat c / 10) = (0 :: rat)" by simp
    then show ?thesis by (simp add: lit_0)
  qed
  have none: "c = 0 \<Longrightarrow> to_number (max 0 (1 - of_nat c / 10)) = Finite 1"
    by (simp add: lit_1)
  show ?thesis
    unfolding c_def [symmetric] score round2 using big none by simp
qed

theorem health_score_formula_witness:
  "10 \<le> length (filter (\<lambda>v. severity v = CRITICAL)
      (violations (runIntegrityScan (\<lambda>x. ''0.50'') (\<lambda>k. Finite 0)
        (replicate 10 \<lparr>assetUuid = ''ASSET-505'', originKey = ''SCAN-E'',
           location = \<lparr>latitude = Finite 34, longitude = Finite (- 118), zoneId = None\<rparr>,
           timestamp = Finite 0, statusCode = ERROR, dataPayload = Some []\<rparr>) [])))
   \<and> systemHealthScore (runIntegrityScan (\<lambda>x. ''0.50'') (\<lambda>k. Finite 0)
        (replicate 10 \<lparr>assetUuid = ''ASSET-505'', originKey = ''SCAN-E'',
           location = \<lparr>latitude = Finite 34, longitude = Finite (- 118), zoneId = None\<rparr>,
           timestamp = Finite 0, statusCode = ERROR, dataPayload = Some []\<rparr>) []) = Finite 0
   \<and> length (filter (\<lambda>v. severity v = CRITICAL)
      (violations (runIntegrityScan (\<lambda>x. ''0.50'') (\<lambda>k. Finite 0) [] []))) = 0
   \<and> systemHealthScore (runIntegrityScan (\<lambda>x. ''0.50'') (\<lambda>k. Finite 0) [] []) = Finite 1"
proof -
  let ?e = "\<lparr>assetUuid = ''ASSET-505'', originKey = ''SCAN-E'',
           location = \<lparr>latitude = Finite 34, longitude = Finite (- 118), zoneId = None\<rparr>,
           timestamp = Finite 0, statusCode = ERROR, dataPayload = Some []\<rparr>"
  have ten: "10 \<le> length (filter (\<lambda>v. severity v = CRITICAL)
      (violations (runIntegrityScan (\<lambda>x. ''0.50'') (\<lambda>k. Finite 0) (replicate 10 ?e) [])))"
    by (simp add: report_violations scan_passes_violations event_violation_cases
        concat_map_if_filter)
  have none: "length (filter (\<lambda>v. severity v = CRITICAL)
      (violations (runIntegrityScan (\<lambda>x. ''0.50'') (\<lambda>k. Finite 0) [] []))) = 0"
    by (simp add: report_violations scan_passes_violations)
  show ?thesis
    using ten none
      health_score_formula [of "\<lambda>x. ''0.50''" "\<lambda>k. Finite 0" "replicate 10 ?e" "[]"]
      health_score_formula [of "\<lambda>x. ''0.50''" "\<lambda>k. Finite 0" "[]" "[]"]
    by blast
qed

subsection \<open>C5: the order of the violations\<close>

text \<open>
  C5: the violations of a report are those of each asset event alone, in the order of the
  events, followed by those of each operator status alone, in the order of the statuses.
\<close>

theorem violations_order:
  "violations (runIntegrityScan f clk es ss)
     = concat (map (\<lambda>e. violations (runIntegrityScan f clk [e] [])) es)
       @ concat (map (\<lambda>s. violations (runIntegrityScan f clk [] [s])) ss)"
  by (simp add: report_violations scan_passes_violations)

subsection \<open>C6: the arguments are not written\<close>

text \<open>
  C6: after the two passes, and between them, the memory holds the two argument arrays
  as they were at entry, with every record in them.
\<close>

theorem scan_leaves_arguments:
  "st_allEvents (scan_passes f es ss) = es
   \<and> st_allStatuses (scan_passes f es ss) = ss
   \<and> st_allEvents (forEach st_allEvents eventCallback (init_state es ss)) = es
   \<and> st_allStatuses (forEach st_allEvents eventCallback (init_state es ss)) = ss"
  by (simp add: scan_passes_fold forEach_fold init_state_def)

subsection \<open>C7: determinism\<close>

text \<open>
  C7: two invocations on the same inputs return the same violations, the same
  \<open>criticalAssetCount\<close> and the same \<open>systemHealthScore\<close>, whatever the clock reads in each.
\<close>

theorem scan_deterministic:
  "violations (runIntegrityScan f clk1 es ss) = violations (runIntegrityScan f clk2 es ss)
   \<and> criticalAssetCount (runIntegrityScan f clk1 es ss)
       = criticalAssetCount (runIntegrityScan f clk2 es ss)
   \<and> systemHealthScore (runIntegrityScan f clk1 es ss)
       = systemHealthScore (runIntegrityScan f clk2 es ss)"
  by (simp add: report_violations report_count report_score)

subsection \<open>C8: the dashboard's execute-scan\<close>

text \<open>
  C8: \<open>executeScan\<close> sets the in-progress flag before it calls the engine, holding the
  report and the log as they were; afterwards the flag is cleared, whether the promise of
  the engine is fulfilled or rejected. When it is fulfilled the new report replaces the
  held one and nothing else changes; when it is rejected one line is logged with
  \<open>console.error\<close> and the held report stays as it was: the engine is not called again and
  the state gets no mark of the error. With the imported engine the promise is fulfilled
  with the report of the scan of the fixtures.
\<close>

theorem executeScan_flag_and_report:
  "isScanning (executeScan_enter st)
   \<and> report (executeScan_enter st) = report st
   \<and> console_error (executeScan_enter st) = console_error st
   \<and> \<not> isScanning (executeScan engine t1 t2 st)
   \<and> (\<forall>r. engine (MOCK_ASSET_EVENTS t1 t2) MOCK_OPERATOR_STATUSES = Fulfilled r \<longrightarrow>
         executeScan engine t1 t2 st = st\<lparr>report := Some r, isScanning := False\<rparr>)
   \<and> (\<forall>e. engine (MOCK_ASSET_EVENTS t1 t2) MOCK_OPERATOR_STATUSES = Rejected e \<longrightarrow>
         executeScan engine t1 t2 st
           = st\<lparr>isScanning := False,
                console_error := console_error st @ [(''Scan failed:'', e)]\<rparr>
         \<and> report (executeScan engine t1 t2 st) = report st)
   \<and> executeScan (runIntegrityScan_promise f clk) t1 t2 st
       = st\<lparr>report := Some (runIntegrityScan f clk (MOCK_ASSET_EVENTS t1 t2)
                               MOCK_OPERATOR_STATUSES),
            isScanning := False\<rparr>"
  by (cases "engine (MOCK_ASSET_EVENTS t1 t2) MOCK_OPERATOR_STATUSES")
    (simp_all add: executeScan_def executeScan_enter_def executeScan_resume_def
      runIntegrityScan_promise_def)

theorem executeScan_flag_and_report_witness:
  "(\<lambda>es ss. Rejected ''TypeError'') (MOCK_ASSET_EVENTS (Finite 0) (Finite 0)) MOCK_OPERATOR_STATUSES
     = Rejected ''TypeError''
   \<and> executeScan (\<lambda>es ss. Rejected ''TypeError'') (Finite 0) (Finite 0)
       \<lparr>report = Some (runIntegrityScan (\<lambda>x. ''0.58'') (\<lambda>k. Finite 0) [] []),
        isScanning = False, console_error = []\<rparr>
     = \<lparr>report = Some (runIntegrityScan (\<lambda>x. ''0.58'') (\<lambda>k. Finite 0) [] []),
        isScanning = False, console_error = [(''Scan failed:'', ''TypeError'')]\<rparr>
   \<and> runIntegrityScan_promise (\<lambda>x. ''0.58'') (\<lambda>k. Finite 0)
       (MOCK_ASSET_EVENTS (Finite 0) (Finite 0)) MOCK_OPERATOR_STATUSES
     = Fulfilled (runIntegrityScan (\<lambda>x. ''0.58'') (\<lambda>k. Finite 0)
         (MOCK_ASSET_EVENTS (Finite 0) (Finite 0)) MOCK_OPERATOR_STATUSES)
   \<and> executeScan (runIntegrityScan_promise (\<lambda>x. ''0.58'') (\<lambda>k. Finite 0)) (Finite 0) (Finite 0)
       \<lparr>report = Some (runIntegrityScan (\<lambda>x. ''0.58'') (\<lambda>k. Finite 0) [] []),
        isScanning = False, console_error = []\<rparr>
     = \<lparr>report = Some (runIntegrityScan (\<lambda>x. ''0.58'') (\<lambda>k. Finite 0)
         (MOCK_ASSET_EVENTS (Finite 0) (Finite 0)) MOCK_OPERATOR_STATUSES),
        isScanning = False, console_error = []\<rparr>"
  using
    executeScan_flag_and_report [of
      "\<lparr>report = Some (runIntegrityScan (\<lambda>x. ''0.58'') (\<lambda>k. Finite 0) [] []),
        isScanning = False, console_error = []\<rparr>"
      "\<lambda>es ss. Rejected ''TypeError''" "Finite 0" "Finite 0"]
    executeScan_flag_and_report [of
      "\<lparr>report = Some (runIntegrityScan (\<lambda>x. ''0.58'') (\<lambda>k. Finite 0) [] []),
        isScanning = False, console_error = []\<rparr>"
      "runIntegrityScan_promise (\<lambda>x. ''0.58'') (\<lambda>k. Finite 0)" "Finite 0" "Finite 0"
      "\<lambda>x. ''0.58''" "\<lambda>k. Finite 0"]
  by (simp add: runIntegrityScan_promise_def)

subsection \<open>C9: the kinds of violation\<close>

text \<open>
  C9: every violation of a report is DATA_INTEGRITY / CRITICAL / CCP-3.1, TRUST_VIOLATION /
  CRITICAL / CCP-4.1 or PROTOCOL_BREACH / WARNING / CCP-4.2; none has severity NOTICE, and
  no other protocol reference appears.
\<close>

theorem violation_kinds:
  "\<forall>v \<in> set (violations (runIntegrityScan f clk es ss)).
     (type_v v, severity v, protocolRef v)
       \<in> {(DATA_INTEGRITY, CRITICAL, ''CCP-3.1''), (TRUST_VIOLATION, CRITICAL, ''CCP-4.1''),
          (PROTOCOL_BREACH, WARNING, ''CCP-4.2'')}
     \<and> severity v \<noteq> NOTICE
     \<and> protocolRef v \<in> {''CCP-3.1'', ''CCP-4.1'', ''CCP-4.2''}"
  by (auto simp add: report_violations scan_passes_violations event_violation_cases
      status_violation_cases split: if_splits)

theorem violation_kinds_witness:
  "\<lparr>id_v = ''OP-KORE'', type_v = PROTOCOL_BREACH,
     description = ''Operator trust unstable; requires immediate Skill Verification pathway.'',
     severity = WARNING, protocolRef = ''CCP-4.2''\<rparr>
     \<in> set (violations (runIntegrityScan (\<lambda>x. ''0.58'') (\<lambda>k. Finite 0)
         (MOCK_ASSET_EVENTS (Finite 0) (Finite 0)) MOCK_OPERATOR_STATUSES))
   \<and> (type_v \<lparr>id_v = ''OP-KORE'', type_v = PROTOCOL_BREACH,
         description = ''Operator trust unstable; requires immediate Skill Verification pathway.'',
         severity = WARNING, protocolRef = ''CCP-4.2''\<rparr>,
       severity \<lparr>id_v = ''OP-KORE'', type_v = PROTOCOL_BREACH,
         description = ''Operator trust unstable; requires immediate Skill Verification pathway.'',
         severity = WARNING, protocolRef = ''CCP-4.2''\<rparr>,
       protocolRef \<lparr>id_v = ''OP-KORE'', type_v = PROTOCOL_BREACH,
         description = ''Operator trust unstable; requires immediate Skill Verification pathway.'',
         severity = WARNING, protocolRef = ''CCP-4.2''\<rparr>)
       \<in> {(DATA_INTEGRITY, CRITICAL, ''CCP-3.1''), (TRUST_VIOLATION, CRITICAL, ''CCP-4.1''),
          (PROTOCOL_BREACH, WARNING, ''CCP-4.2'')}"
proof -
  let ?v = "\<lparr>id_v = ''OP-KORE'', type_v = PROTOCOL_BREACH,
     description = ''Operator trust unstable; requires immediate Skill Verification pathway.'',
     severity = WARNING, protocolRef = ''CCP-4.2''\<rparr>"
  let ?r = "runIntegrityScan (\<lambda>x. ''0.58'') (\<lambda>k. Finite 0)
         (MOCK_ASSET_EVENTS (Finite 0) (Finite 0)) MOCK_OPERATOR_STATUSES"
  have m: "?v \<in> set (violations ?r)"
    by (simp add: report_violations mock_violations)
  have "(type_v ?v, severity ?v, protocolRef ?v)
       \<in> {(DATA_INTEGRITY, CRITICAL, ''CCP-3.1''), (TRUST_VIOLATION, CRITICAL, ''CCP-4.1''),
          (PROTOCOL_BREACH, WARNING, ''CCP-4.2'')}"
    using violation_kinds [of "\<lambda>x. ''0.58''" "\<lambda>k. Finite 0"
        "MOCK_ASSET_EVENTS (Finite 0) (Finite 0)" MOCK_OPERATOR_STATUSES] m
    by blast
  then show ?thesis using m by (rule_tac conjI)
qed

subsection \<open>C10: empty inputs, and the number of violations\<close>

text \<open>
  C10: on two empty arrays the report has no violation, \<open>criticalAssetCount\<close> 0 and
  \<open>systemHealthScore\<close> 1; for every input the number of violations is at most the number
  of asset events plus the number of operator statuses.
\<close>

theorem empty_scan_and_length_bound:
  "violations (runIntegrityScan f clk [] []) = []
   \<and> criticalAssetCount (runIntegrityScan f clk [] []) = 0
   \<and> systemHealthScore (runIntegrityScan f clk [] []) = Finite 1
   \<and> length (violations (runIntegrityScan f clk es ss)) \<le> length es + length ss"
proof -
  have v: "violations (runIntegrityScan f clk [] []) = []"
    by (simp add: report_violations scan_passes_violations)
  have c: "criticalAssetCount (runIntegrityScan f clk [] []) = 0"
    by (simp add: report_count scan_passes_count)
  have "systemHealthScore (runIntegrityScan f clk [] []) = to_number (max 0 (1 - of_nat 0 / 10))"
    unfolding report_score by (simp add: scan_passes_violations healthScore_eq)
  then have h: "systemHealthScore (runIntegrityScan f clk [] []) = Finite 1"
    by (simp add: lit_1)
  have "length (concat (map (\<lambda>e. st_violations (eventCallback e (init_state [] []))) es))
          \<le> length es"
    by (induction es) (simp_all add: event_violation_cases)
  moreover have "length (concat (map (\<lambda>x. st_violations (statusCallback f x (init_state [] []))) ss))
          \<le> length ss"
    by (induction ss) (simp_all add: status_violation_cases)
  ultimately have l: "length (violations (runIntegrityScan f clk es ss)) \<le> length es + length ss"
    by (simp add: report_violations scan_passes_violations)
  show ?thesis using v c h l by simp
qed

end
